theory Spec2Isabelle
  imports Main
begin

section \<open>The mapped classes of the schema\<close>

text \<open>
  The declarative classes of the package \<^verbatim>\<open>models\<close> (project.py, organization.py,
  annotation.py, event.py). Each carries its \<^verbatim>\<open>__tablename__\<close>, the \<^verbatim>\<open>Column\<close>
  attributes of its class body and its \<^verbatim>\<open>relationship\<close> attributes, in source order.
\<close>

datatype model =
    Project | File | FileVersion
  | Organization | User | Role | Permission
  | AnnotationJob | Assignment | Review
  | ExportedFile | ExportLog | EventLog

fun tablename_of :: "model \<Rightarrow> string" where
  "tablename_of Project = ''project''"
| "tablename_of File = ''file''"
| "tablename_of FileVersion = ''file_version''"
| "tablename_of Organization = ''organization''"
| "tablename_of User = ''user''"
| "tablename_of Role = ''role''"
| "tablename_of Permission = ''permission''"
| "tablename_of AnnotationJob = ''annotation_job''"
| "tablename_of Assignment = ''assignment''"
| "tablename_of Review = ''review''"
| "tablename_of ExportedFile = ''exported_file''"
| "tablename_of ExportLog = ''export_log''"
| "tablename_of EventLog = ''event_log''"

fun own_columns :: "model \<Rightarrow> string list" where
  "own_columns Project =
     [''project_id'', ''org_id'', ''name'', ''description'', ''requirements_text'',
      ''status'', ''is_active'', ''date_created'', ''date_updated'', ''completed_at'',
      ''deleted_at'', ''client_pm_id'', ''our_pm_id'']"
| "own_columns File =
     [''file_id'', ''name'', ''description'', ''uploaded_by'', ''status'', ''file_type'',
      ''date_created'', ''date_updated'', ''is_active'', ''deleted_at'', ''size_bytes'',
      ''mime_type'', ''project_id'', ''active_version_id'']"
| "own_columns FileVersion =
     [''version_id'', ''file_id'', ''version_number'', ''storage_path'', ''checksum'',
      ''size_bytes'', ''mime_type'', ''uploaded_by'', ''uploaded_at'', ''is_active'',
      ''source_file_version_id'', ''generation_method'', ''llm_model'', ''llm_params'']"
| "own_columns Organization =
     [''org_id'', ''name'', ''description'', ''is_active'', ''deleted_at'']"
| "own_columns User =
     [''user_id'', ''email'', ''org_id'', ''availability'', ''language_expertise'',
      ''skill_score'', ''skill_level'', ''qa_approval_rate'', ''completed_task_count'',
      ''is_active'']"
| "own_columns Role = [''role_id'', ''name'', ''description'']"
| "own_columns Permission = [''permission_id'', ''name'', ''description'']"
| "own_columns AnnotationJob =
     [''job_id'', ''file_id'', ''project_id'', ''language'', ''priority'', ''status'',
      ''review_status'', ''is_active'', ''deleted_at'', ''due_date'', ''completed_at'']"
| "own_columns Assignment =
     [''assignment_id'', ''job_id'', ''user_id'', ''role'', ''status'', ''is_active'',
      ''completed_at'', ''assigned_at'', ''updated_at'']"
| "own_columns Review =
     [''review_id'', ''job_id'', ''reviewer_id'', ''status'', ''feedback'', ''is_active'',
      ''deleted_at'']"
| "own_columns ExportedFile = [''export_id'', ''file_version_id'', ''included_at'']"
| "own_columns ExportLog =
     [''export_id'', ''project_id'', ''requested_by'', ''storage_path'', ''checksum'',
      ''status'', ''date_requested'', ''date_completed'']"
| "own_columns EventLog =
     [''event_id'', ''entity_type'', ''entity_id'', ''event_type'', ''user_id'',
      ''event_metadata'', ''event_time'', ''file_id'', ''file_version_id'', ''project_id'',
      ''job_id'', ''export_id'', ''review_id'']"

fun relationships_of :: "model \<Rightarrow> string list" where
  "relationships_of Project =
     [''files'', ''requirement_files'', ''jobs'', ''events'', ''organization'',
      ''client_pm'', ''our_pm'', ''exports'']"
| "relationships_of File =
     [''uploader'', ''project'', ''versions'', ''annotation_jobs'', ''events'',
      ''active_version'']"
| "relationships_of FileVersion =
     [''file'', ''source_version'', ''events'', ''exports'', ''exported_files'']"
| "relationships_of Organization = [''users'', ''projects'']"
| "relationships_of User =
     [''uploaded_files'', ''events'', ''assignments'', ''client_projects'',
      ''managed_projects'', ''previous_jobs'', ''reviews'']"
| "relationships_of Role = [''users'', ''permissions'']"
| "relationships_of Permission = [''roles'']"
| "relationships_of AnnotationJob =
     [''file'', ''project'', ''reviews'', ''assignments'', ''previous_annotators'']"
| "relationships_of Assignment = [''job'', ''user'', ''reviews'']"
| "relationships_of Review = [''job'', ''reviewer'', ''events'']"
| "relationships_of ExportedFile = [''export'', ''file_version'']"
| "relationships_of ExportLog =
     [''project'', ''requested_user'', ''file_versions'', ''exported_files'']"
| "relationships_of EventLog =
     [''user'', ''project'', ''file'', ''file_version'', ''job'', ''export'', ''review'']"

text \<open>Every class but \<^verbatim>\<open>ExportedFile\<close> lists \<^verbatim>\<open>TimestampMixin\<close> among its bases.\<close>

fun has_TimestampMixin :: "model \<Rightarrow> bool" where
  "has_TimestampMixin ExportedFile = False"
| "has_TimestampMixin m = True"

text \<open>
  Modelled from the spec: the columns that \<^verbatim>\<open>TimestampMixin\<close> contributes. The module
  \<^verbatim>\<open>models/mixins.py\<close> is not among the sources; the specification says that each tracked
  entity record carries an automatically managed \<^verbatim>\<open>updated_at\<close> timestamp.
\<close>

definition TimestampMixin_columns :: "string list" where
  "TimestampMixin_columns = [''updated_at'']"

definition columns_of :: "model \<Rightarrow> string list" where
  "columns_of m =
     own_columns m @ (if has_TimestampMixin m then TimestampMixin_columns else [])"

text \<open>The keys of \<^verbatim>\<open>inspect(target).attrs\<close>: every mapped attribute of the class.\<close>

definition mapped_attrs :: "model \<Rightarrow> string list" where
  "mapped_attrs m = columns_of m @ relationships_of m"

section \<open>Instances under a pending update\<close>

text \<open>
  The hook sees an instance through its class (which gives \<^verbatim>\<open>target.__tablename__\<close>) and
  through the attribute state that the ORM keeps for it. The ORM is not among the sources;
  its attribute state is modelled by two maps.
  \<^item> \<open>loaded t c\<close> is the value of attribute \<open>c\<close> as it came from the database, when that
    value is in memory; it is \<open>None\<close> when the attribute is not in memory (an expired
    instance, the state after a commit, or an attribute never loaded).
  \<^item> \<open>assigned t c\<close> is the value assigned to \<open>c\<close> since then, pending for the write. The
    ORM keeps the value from the database as the baseline of the attribute.
  A value is either a proper value or the sentinel \<^verbatim>\<open>NO_VALUE\<close> of the ORM.
\<close>

datatype 'v attr_value = NO_VALUE | Val 'v

record 'v entity =
  cls :: model
  loaded :: "string \<rightharpoonup> 'v"
  assigned :: "string \<rightharpoonup> 'v attr_value"

datatype error = KeyError string

definition has_attr :: "model \<Rightarrow> string \<Rightarrow> bool" where
  "has_attr m c = (c \<in> set (mapped_attrs m))"

text \<open>
  \<^verbatim>\<open>state.attrs[c].loaded_value\<close>: the value the instance holds now for \<open>c\<close>, which is the
  assigned value when one was assigned and the value from the database otherwise;
  \<^verbatim>\<open>NO_VALUE\<close> when the instance holds none.
\<close>

definition loaded_value :: "'v entity \<Rightarrow> string \<Rightarrow> 'v attr_value" where
  "loaded_value t c =
     (case assigned t c of
        Some x \<Rightarrow> x
      | None \<Rightarrow> (case loaded t c of Some v \<Rightarrow> Val v | None \<Rightarrow> NO_VALUE))"

text \<open>
  \<^verbatim>\<open>state.attrs[c].history.has_changes()\<close>: an attribute that was not assigned has no
  changes; an assigned attribute has changes unless its value equals a baseline that is in
  memory. With no baseline in memory every assignment counts as a change.
\<close>

definition has_changes :: "'v entity \<Rightarrow> string \<Rightarrow> bool" where
  "has_changes t c =
     (case assigned t c of
        None \<Rightarrow> False
      | Some x \<Rightarrow> (case loaded t c of None \<Rightarrow> True | Some v \<Rightarrow> x \<noteq> Val v))"

text \<open>
  The attribute assignment \<^verbatim>\<open>target.c = x\<close>: the instance now holds \<open>x\<close> for \<open>c\<close>; the
  baseline stays as it was.
\<close>

definition setattr :: "'v entity \<Rightarrow> string \<Rightarrow> 'v attr_value \<Rightarrow> 'v entity" where
  "setattr t c x = t\<lparr>assigned := (assigned t)(c \<mapsto> x)\<rparr>"

section \<open>The rule of update_rules.py\<close>

text \<open>
  \<^verbatim>\<open>REAL_UPDATE_COLS\<close>, a dict from table name to a set of column names. The sets are kept
  as lists in the order of the literal; the hook only tests them for emptiness and iterates
  over them.
\<close>

definition REAL_UPDATE_COLS :: "string \<rightharpoonup> string list" where
  "REAL_UPDATE_COLS = map_of
    [(''project'', [''status'', ''name'', ''description'', ''client_pm_id'', ''our_pm_id'',
                    ''is_active'']),
     (''file'', [''status'', ''name'', ''description'', ''active_version_id'', ''is_active'']),
     (''file_version'', [''is_active'', ''generation_method'', ''llm_model'', ''llm_params'']),
     (''user'', [''email'', ''org_id'', ''availability'', ''language_expertise'',
                 ''skill_score'', ''skill_level'', ''qa_approval_rate'', ''is_active'']),
     (''annotation_job'', [''status'', ''review_status'', ''priority'', ''language'',
                           ''due_date'', ''is_active'']),
     (''assignment'', [''status'', ''role'', ''user_id'']),
     (''review'', [''status'', ''feedback'', ''is_active'']),
     (''export_log'', [''status'', ''storage_path'', ''checksum'']),
     (''organization'', [''name'', ''description'', ''is_active''])]"

text \<open>
  \<^verbatim>\<open>any(state.attrs[c].history.has_changes() for c in cols)\<close>: the generator is consumed
  from the left and stops at the first column with changes; \<^verbatim>\<open>state.attrs[c]\<close> raises
  \<^verbatim>\<open>KeyError\<close> for a name that is not a mapped attribute.
\<close>

fun any_has_changes :: "'v entity \<Rightarrow> string list \<Rightarrow> error + bool" where
  "any_has_changes t [] = Inr False"
| "any_has_changes t (c # cs) =
     (if \<not> has_attr (cls t) c then Inl (KeyError c)
      else if has_changes t c then Inr True
      else any_has_changes t cs)"

text \<open>
  \<^verbatim>\<open>skip_updated_at(mapper, connection, target)\<close> in state-passing form. The arguments
  \<^verbatim>\<open>mapper\<close> and \<^verbatim>\<open>connection\<close> are not used by the body. The state consists of the
  dict bound to the module global \<^verbatim>\<open>REAL_UPDATE_COLS\<close>, here \<open>cfg\<close>, and of the instance;
  the result is that state after the call, or the exception raised. The last line of the
  body assigns to \<^verbatim>\<open>updated_at\<close> the \<^verbatim>\<open>loaded_value\<close> of that same attribute.
\<close>

definition skip_updated_at_st ::
  "(string \<rightharpoonup> string list) \<Rightarrow> 'v entity \<Rightarrow> error + (string \<rightharpoonup> string list) \<times> 'v entity"
where
  "skip_updated_at_st cfg target =
     (let cols = (case cfg (tablename_of (cls target)) of Some cs \<Rightarrow> cs | None \<Rightarrow> [])
      in if cols = [] then Inr (cfg, target)
         else (case any_has_changes target cols of
                 Inl e \<Rightarrow> Inl e
               | Inr True \<Rightarrow> Inr (cfg, target)
               | Inr False \<Rightarrow>
                   (if \<not> has_attr (cls target) ''updated_at''
                    then Inl (KeyError ''updated_at'')
                    else Inr (cfg, setattr target ''updated_at''
                                     (loaded_value target ''updated_at'')))))"

text \<open>The hook as the module has it, with the global bound to the literal above.\<close>

definition skip_updated_at :: "'v entity \<Rightarrow> error + 'v entity" where
  "skip_updated_at target =
     (case skip_updated_at_st REAL_UPDATE_COLS target of
        Inl e \<Rightarrow> Inl e
      | Inr (cfg, target') \<Rightarrow> Inr target')"

text \<open>
  The registration loop at the end of the module: one \<^verbatim>\<open>before_update\<close> listener per
  class of the list.
\<close>

definition registered_models :: "model list" where
  "registered_models =
     [Project, File, FileVersion, User, AnnotationJob, Assignment, Review, ExportLog,
      Organization]"

definition listeners :: "(model \<times> string) list" where
  "listeners = map (\<lambda>m. (m, ''before_update'')) registered_models"

section \<open>The persistence layer around the hook\<close>

text \<open>
  Modelled from the spec: the dispatch of a lifecycle event by the persistence layer (the
  ORM is not among the sources). The listeners registered for the class of the instance
  and for the event are run; the only listener of this module is \<^verbatim>\<open>skip_updated_at\<close>.
\<close>

definition dispatch :: "string \<Rightarrow> 'v entity \<Rightarrow> error + 'v entity" where
  "dispatch ev target =
     (if (cls target, ev) \<in> set listeners then skip_updated_at target else Inr target)"

text \<open>
  Modelled from the spec: the auto-update-timestamp mechanism of \<^verbatim>\<open>TimestampMixin\<close>
  (\<^verbatim>\<open>models/mixins.py\<close> and the flush of the ORM are not among the sources). When the
  update is flushed, a pending \<^verbatim>\<open>updated_at\<close> value is written back as it is; when none
  is pending, the mechanism writes the current time.
\<close>

definition flushed_updated_at :: "'v \<Rightarrow> 'v entity \<Rightarrow> 'v attr_value" where
  "flushed_updated_at now target =
     (case assigned target ''updated_at'' of Some x \<Rightarrow> x | None \<Rightarrow> Val now)"

text \<open>
  An update transaction of one instance: the \<^verbatim>\<open>before_update\<close> listeners run, then the
  row is written. The result is the \<^verbatim>\<open>updated_at\<close> value of the row after the commit, or
  the exception that failed the transaction.
\<close>

definition update_transaction :: "'v \<Rightarrow> 'v entity \<Rightarrow> error + 'v attr_value" where
  "update_transaction now target =
     (case dispatch ''before_update'' target of
        Inl e \<Rightarrow> Inl e
      | Inr target' \<Rightarrow> Inr (flushed_updated_at now target'))"

section \<open>Concrete rows\<close>

text \<open>
  A row of class \<open>m\<close> that is in memory as loaded, with \<^verbatim>\<open>updated_at\<close> equal to 100 and
  every other attribute equal to 0, and with the pending assignments \<open>a\<close>. Values are
  natural numbers.
\<close>

definition scenario :: "model \<Rightarrow> (string \<rightharpoonup> nat attr_value) \<Rightarrow> nat entity" where
  "scenario m a =
     \<lparr>cls = m, loaded = (\<lambda>c. Some (if c = ''updated_at'' then 100 else 0)), assigned = a\<rparr>"

text \<open>
  An expired instance of class \<open>m\<close>: no value from the database is in memory; \<open>a\<close> are the
  assignments made since.
\<close>

definition expired :: "model \<Rightarrow> (string \<rightharpoonup> nat attr_value) \<Rightarrow> nat entity" where
  "expired m a = \<lparr>cls = m, loaded = (\<lambda>c. None), assigned = a\<rparr>"

section \<open>The configuration against the schema\<close>

lemma config_cases:
  "REAL_UPDATE_COLS (tablename_of m) = Some cs \<Longrightarrow> m \<in> set registered_models"
  by (cases m) (simp_all add: REAL_UPDATE_COLS_def registered_models_def)

lemma registered_config:
  "m \<in> set registered_models \<Longrightarrow> \<exists>cs. REAL_UPDATE_COLS (tablename_of m) = Some cs"
  by (cases m) (simp_all add: REAL_UPDATE_COLS_def registered_models_def)

lemma cols_nonempty: "REAL_UPDATE_COLS tn = Some cs \<Longrightarrow> cs \<noteq> []"
  by (auto simp: REAL_UPDATE_COLS_def split: if_splits)

lemma updated_at_no_col: "REAL_UPDATE_COLS tn = Some cs \<Longrightarrow> ''updated_at'' \<notin> set cs"
  by (auto simp: REAL_UPDATE_COLS_def split: if_splits)

lemma cols_are_columns:
  "REAL_UPDATE_COLS (tablename_of m) = Some cs \<Longrightarrow> set cs \<subseteq> set (own_columns m)"
  by (cases m) (auto simp: REAL_UPDATE_COLS_def)

lemma cols_mapped:
  "REAL_UPDATE_COLS (tablename_of m) = Some cs \<Longrightarrow> c \<in> set cs \<Longrightarrow> has_attr m c"
  using cols_are_columns [of m cs]
  by (auto simp: has_attr_def mapped_attrs_def columns_of_def)

lemma updated_at_mapped:
  "m \<in> set registered_models \<Longrightarrow> has_attr m ''updated_at''"
  by (cases m)
    (simp_all add: registered_models_def has_attr_def mapped_attrs_def columns_of_def
      TimestampMixin_columns_def)

section \<open>What the hook computes\<close>

text \<open>
  When every column of the list is a mapped attribute, the scan raises nothing and its
  result does not depend on the order of the list.
\<close>

lemma any_has_changes_mapped:
  "(\<And>c. c \<in> set cs \<Longrightarrow> has_attr (cls t) c) \<Longrightarrow>
   any_has_changes t cs = Inr (\<exists>c\<in>set cs. has_changes t c)"
  by (induction cs) auto

lemma skip_updated_at_st_scan:
  assumes "cfg (tablename_of (cls t)) = Some cs" and "cs \<noteq> []"
    and "any_has_changes t cs = Inr b" and "has_attr (cls t) ''updated_at''"
  shows "skip_updated_at_st cfg t =
           Inr (cfg, if b then t
                     else setattr t ''updated_at'' (loaded_value t ''updated_at''))"
  using assms by (simp add: skip_updated_at_st_def)

lemma skip_updated_at_st_no_cols:
  "cfg (tablename_of (cls t)) = None \<Longrightarrow> skip_updated_at_st cfg t = Inr (cfg, t)"
  by (simp add: skip_updated_at_st_def)

lemma skip_updated_at_tracked:
  assumes "REAL_UPDATE_COLS (tablename_of (cls t)) = Some cs"
  shows "skip_updated_at t =
           Inr (if \<exists>c\<in>set cs. has_changes t c then t
                else setattr t ''updated_at'' (loaded_value t ''updated_at''))"
proof -
  have ne: "cs \<noteq> []" using assms by (rule cols_nonempty)
  have any: "any_has_changes t cs = Inr (\<exists>c\<in>set cs. has_changes t c)"
    by (rule any_has_changes_mapped) (rule cols_mapped [OF assms])
  have upd: "has_attr (cls t) ''updated_at''"
    by (rule updated_at_mapped) (rule config_cases [OF assms])
  show ?thesis
    by (simp add: skip_updated_at_def
        skip_updated_at_st_scan [where cfg = REAL_UPDATE_COLS, OF assms ne any upd])
qed

lemma skip_updated_at_untracked:
  "REAL_UPDATE_COLS (tablename_of (cls t)) = None \<Longrightarrow> skip_updated_at t = Inr t"
  by (simp add: skip_updated_at_def skip_updated_at_st_no_cols)

lemma skip_updated_at_total: "\<exists>t1. skip_updated_at t = Inr t1"
proof (cases "REAL_UPDATE_COLS (tablename_of (cls t))")
  case None
  then show ?thesis by (simp add: skip_updated_at_untracked)
next
  case (Some cs)
  then show ?thesis by (simp add: skip_updated_at_tracked)
qed

text \<open>Assigning to one attribute leaves the state of every other attribute alone.\<close>

lemma cls_setattr: "cls (setattr t a x) = cls t"
  by (simp add: setattr_def)

lemma has_changes_setattr_other:
  "c \<noteq> a \<Longrightarrow> has_changes (setattr t a x) c = has_changes t c"
  by (simp add: has_changes_def setattr_def split: option.splits)

text \<open>Re-assigning the value that an attribute holds gives the same state again.\<close>

lemma loaded_value_setattr: "loaded_value (setattr t a x) a = x"
  by (simp add: loaded_value_def setattr_def)

lemma setattr_again: "setattr (setattr t a x) a x = setattr t a x"
  by (simp add: setattr_def)

lemma skip_updated_at_again:
  assumes "skip_updated_at t = Inr t1"
  shows "skip_updated_at t1 = Inr t1"
proof (cases "REAL_UPDATE_COLS (tablename_of (cls t))")
  case None
  then show ?thesis using assms by (simp add: skip_updated_at_untracked)
next
  case (Some cs)
  show ?thesis
  proof (cases "\<exists>c\<in>set cs. has_changes t c")
    case True
    then have "t1 = t" using assms by (simp add: skip_updated_at_tracked [OF Some])
    then show ?thesis using assms by simp
  next
    case False
    then have t1: "t1 = setattr t ''updated_at'' (loaded_value t ''updated_at'')"
      using assms by (simp add: skip_updated_at_tracked [OF Some])
    have k1: "REAL_UPDATE_COLS (tablename_of (cls t1)) = Some cs"
      using Some by (simp add: t1 cls_setattr)
    have "\<not> has_changes t1 c" if "c \<in> set cs" for c
    proof -
      have "c \<noteq> ''updated_at''" using that updated_at_no_col [OF Some] by blast
      then show ?thesis using that False by (simp add: t1 has_changes_setattr_other)
    qed
    then have "skip_updated_at t1 = Inr (setattr t1 ''updated_at'' (loaded_value t1 ''updated_at''))"
      by (simp add: skip_updated_at_tracked [OF k1])
    then show ?thesis
      by (simp add: t1 loaded_value_setattr setattr_again)
  qed
qed

section \<open>Dispatch of the listeners\<close>

lemma dispatch_before_update:
  "dispatch ''before_update'' t =
     (if cls t \<in> set registered_models then skip_updated_at t else Inr t)"
  by (auto simp: dispatch_def listeners_def)

lemma dispatch_other_event:
  "ev \<noteq> ''before_update'' \<Longrightarrow> dispatch ev t = Inr t"
  by (auto simp: dispatch_def listeners_def)

lemma dispatch_tracked:
  assumes "REAL_UPDATE_COLS (tablename_of (cls t)) = Some cs"
  shows "dispatch ''before_update'' t = skip_updated_at t"
  using config_cases [OF assms] by (simp add: dispatch_before_update)

lemma dispatch_untracked:
  assumes "REAL_UPDATE_COLS (tablename_of (cls t)) = None"
  shows "dispatch ev t = Inr t"
  using assms registered_config [of "cls t"]
  by (auto simp: dispatch_def listeners_def skip_updated_at_untracked)

section \<open>The claims\<close>

text \<open>
  C1. The claim asks that an update of a tracked entity which changes no configured column
  leaves \<^verbatim>\<open>updated_at\<close> at its previously persisted value. The hook does not achieve this:
  what it assigns is the value the instance holds now, not the persisted one. For a Review
  row persisted with \<^verbatim>\<open>updated_at\<close> = 100, where the caller set \<^verbatim>\<open>job_id\<close> and
  \<^verbatim>\<open>updated_at\<close> := 150, no configured column (\<^verbatim>\<open>status\<close>, \<^verbatim>\<open>feedback\<close>,
  \<^verbatim>\<open>is_active\<close>) has changes, the hook re-assigns 150, and the update commits 150.
\<close>

theorem restore_assigns_current_value:
  "REAL_UPDATE_COLS (tablename_of (cls (scenario Review
       [''job_id'' \<mapsto> Val 4, ''updated_at'' \<mapsto> Val 150])))
     = Some [''status'', ''feedback'', ''is_active'']
   \<and> \<not> has_changes (scenario Review [''job_id'' \<mapsto> Val 4, ''updated_at'' \<mapsto> Val 150])
         ''status''
   \<and> \<not> has_changes (scenario Review [''job_id'' \<mapsto> Val 4, ''updated_at'' \<mapsto> Val 150])
         ''feedback''
   \<and> \<not> has_changes (scenario Review [''job_id'' \<mapsto> Val 4, ''updated_at'' \<mapsto> Val 150])
         ''is_active''
   \<and> loaded (scenario Review [''job_id'' \<mapsto> Val 4, ''updated_at'' \<mapsto> Val 150])
         ''updated_at'' = Some 100
   \<and> loaded_value (scenario Review [''job_id'' \<mapsto> Val 4, ''updated_at'' \<mapsto> Val 150])
         ''updated_at'' = Val 150
   \<and> update_transaction 200
         (scenario Review [''job_id'' \<mapsto> Val 4, ''updated_at'' \<mapsto> Val 150]) = Inr (Val 150)
   \<and> update_transaction 200
         (scenario Review [''job_id'' \<mapsto> Val 4, ''updated_at'' \<mapsto> Val 150]) \<noteq> Inr (Val 100)"
  by (simp add: update_transaction_def dispatch_def listeners_def registered_models_def
      skip_updated_at_def skip_updated_at_st_def REAL_UPDATE_COLS_def has_attr_def
      mapped_attrs_def columns_of_def TimestampMixin_columns_def has_changes_def
      loaded_value_def setattr_def flushed_updated_at_def scenario_def)

text \<open>
  C2, as amended. \<^verbatim>\<open>description\<close> is in the configured set of the project entity type.
  For a Project row, an update in which the caller changes \<^verbatim>\<open>description\<close> is left as it is
  by the hook, and the committed \<^verbatim>\<open>updated_at\<close> is the one the auto-timestamp mechanism
  writes: the current time when the caller assigned no \<^verbatim>\<open>updated_at\<close> of its own. This
  holds whether or not other columns changed as well.
\<close>

theorem project_description_advances:
  assumes "cls t = Project" and "has_changes t ''description''"
  shows "(\<exists>cs. REAL_UPDATE_COLS ''project'' = Some cs \<and> ''description'' \<in> set cs)
         \<and> skip_updated_at t = Inr t
         \<and> update_transaction now t = Inr (flushed_updated_at now t)
         \<and> (assigned t ''updated_at'' = None \<longrightarrow> update_transaction now t = Inr (Val now))"
proof -
  obtain cs where cs: "REAL_UPDATE_COLS (tablename_of (cls t)) = Some cs" "''description'' \<in> set cs"
    using assms(1) by (simp add: REAL_UPDATE_COLS_def)
  have skip: "skip_updated_at t = Inr t"
    using cs(2) assms(2) by (auto simp: skip_updated_at_tracked [OF cs(1)])
  have tx: "update_transaction now t = Inr (flushed_updated_at now t)"
    by (simp add: update_transaction_def dispatch_tracked [OF cs(1)] skip)
  show ?thesis
    using cs assms(1) skip tx by (auto simp: flushed_updated_at_def)
qed

theorem project_description_advances_witness:
  "cls (scenario Project [''description'' \<mapsto> Val 1]) = Project
   \<and> has_changes (scenario Project [''description'' \<mapsto> Val 1]) ''description''
   \<and> skip_updated_at (scenario Project [''description'' \<mapsto> Val 1])
       = Inr (scenario Project [''description'' \<mapsto> Val 1])
   \<and> update_transaction 200 (scenario Project [''description'' \<mapsto> Val 1]) = Inr (Val 200)"
proof -
  have c: "cls (scenario Project [''description'' \<mapsto> Val 1]) = Project"
    by (simp add: scenario_def)
  have h: "has_changes (scenario Project [''description'' \<mapsto> Val 1]) ''description''"
    by (simp add: scenario_def has_changes_def)
  have a: "assigned (scenario Project [''description'' \<mapsto> Val 1]) ''updated_at'' = None"
    by (simp add: scenario_def)
  show ?thesis
    using project_description_advances [OF c h, of 200] c h a by blast
qed

text \<open>
  C2 as it was stated fails: \<^verbatim>\<open>description\<close> is a configured column of the project
  entity type. For a Project row loaded with \<^verbatim>\<open>updated_at\<close> = 100, where the caller sets
  only \<^verbatim>\<open>description\<close>, the hook returns the instance as it is, and the update commits at
  time 200 with \<^verbatim>\<open>updated_at\<close> = 200.
\<close>

theorem project_description_counterexample:
  "''description'' \<in> set (the (REAL_UPDATE_COLS ''project''))
   \<and> skip_updated_at (scenario Project [''description'' \<mapsto> Val 1])
       = Inr (scenario Project [''description'' \<mapsto> Val 1])
   \<and> update_transaction 200 (scenario Project [''description'' \<mapsto> Val 1]) = Inr (Val 200)
   \<and> update_transaction 200 (scenario Project [''description'' \<mapsto> Val 1]) \<noteq> Inr (Val 100)
   \<and> loaded (scenario Project [''description'' \<mapsto> Val 1]) ''updated_at'' = Some 100
   \<and> has_changes (scenario Project [''description'' \<mapsto> Val 1]) ''description''
   \<and> \<not> has_changes (scenario Project [''description'' \<mapsto> Val 1]) ''status''"
  by (simp add: update_transaction_def dispatch_def listeners_def registered_models_def
      skip_updated_at_def skip_updated_at_st_def REAL_UPDATE_COLS_def has_attr_def
      mapped_attrs_def columns_of_def TimestampMixin_columns_def has_changes_def
      flushed_updated_at_def scenario_def)

text \<open>
  C3, as amended. The configured set of the file entity type includes \<^verbatim>\<open>description\<close>,
  and the set of the organization entity type includes both \<^verbatim>\<open>name\<close> and
  \<^verbatim>\<open>description\<close>.
\<close>

theorem file_and_organization_cols:
  "REAL_UPDATE_COLS ''file'' =
     Some [''status'', ''name'', ''description'', ''active_version_id'', ''is_active'']
   \<and> REAL_UPDATE_COLS ''organization'' = Some [''name'', ''description'', ''is_active'']
   \<and> ''description'' \<in> set (the (REAL_UPDATE_COLS ''file''))
   \<and> ''name'' \<in> set (the (REAL_UPDATE_COLS ''organization''))
   \<and> ''description'' \<in> set (the (REAL_UPDATE_COLS ''organization''))"
  by (simp add: REAL_UPDATE_COLS_def)

text \<open>
  C3 as it was stated fails: the file entity type is configured and \<^verbatim>\<open>description\<close> is
  one of its columns.
\<close>

theorem file_description_counterexample:
  "REAL_UPDATE_COLS ''file'' \<noteq> None
   \<and> \<not> (''description'' \<notin> set (the (REAL_UPDATE_COLS ''file'')))"
  by (simp add: REAL_UPDATE_COLS_def)

text \<open>
  C4. For an entity whose table name is not a key of \<open>REAL_UPDATE_COLS\<close> the hook takes no
  action: it returns the instance as it received it and never rewrites \<^verbatim>\<open>updated_at\<close>.
  The update then commits the timestamp of the auto-timestamp mechanism, which is the
  current time when the caller assigned no \<^verbatim>\<open>updated_at\<close> of its own.
\<close>

theorem unconfigured_no_action:
  assumes "REAL_UPDATE_COLS (tablename_of (cls t)) = None"
  shows "skip_updated_at t = Inr t
         \<and> update_transaction now t = Inr (flushed_updated_at now t)
         \<and> (assigned t ''updated_at'' = None \<longrightarrow> update_transaction now t = Inr (Val now))"
  by (simp add: skip_updated_at_untracked [OF assms] update_transaction_def
      dispatch_untracked [OF assms] flushed_updated_at_def)

theorem unconfigured_no_action_witness:
  "REAL_UPDATE_COLS (tablename_of (cls (scenario EventLog [''event_type'' \<mapsto> Val 3]))) = None
   \<and> skip_updated_at (scenario EventLog [''event_type'' \<mapsto> Val 3])
       = Inr (scenario EventLog [''event_type'' \<mapsto> Val 3])
   \<and> update_transaction 200 (scenario EventLog [''event_type'' \<mapsto> Val 3]) = Inr (Val 200)"
proof -
  have k: "REAL_UPDATE_COLS (tablename_of (cls (scenario EventLog [''event_type'' \<mapsto> Val 3]))) = None"
    by (simp add: scenario_def REAL_UPDATE_COLS_def)
  have a: "assigned (scenario EventLog [''event_type'' \<mapsto> Val 3]) ''updated_at'' = None"
    by (simp add: scenario_def)
  show ?thesis
    using unconfigured_no_action [OF k, of 200] k a by blast
qed

text \<open>
  C5. For a configured entity type and a pending update in which at least one column of
  the configured set has changes, the hook returns the instance untouched, whatever other
  columns changed as well; the committed \<^verbatim>\<open>updated_at\<close> is then the one the
  auto-timestamp mechanism writes.
\<close>

theorem real_change_leaves_updated_at:
  assumes "REAL_UPDATE_COLS (tablename_of (cls t)) = Some cs"
    and "c \<in> set cs" and "has_changes t c"
  shows "skip_updated_at t = Inr t
         \<and> update_transaction now t = Inr (flushed_updated_at now t)"
proof -
  have skip: "skip_updated_at t = Inr t"
    using assms(2,3) by (auto simp: skip_updated_at_tracked [OF assms(1)])
  then show ?thesis
    by (simp add: update_transaction_def dispatch_tracked [OF assms(1)])
qed

text \<open>
  A Project whose \<^verbatim>\<open>status\<close> (configured) and \<^verbatim>\<open>requirements_text\<close> (not configured) both
  changed.
\<close>

theorem real_change_leaves_updated_at_witness:
  "has_changes (scenario Project [''status'' \<mapsto> Val 2, ''requirements_text'' \<mapsto> Val 5]) ''status''
   \<and> has_changes (scenario Project [''status'' \<mapsto> Val 2, ''requirements_text'' \<mapsto> Val 5])
        ''requirements_text''
   \<and> skip_updated_at (scenario Project [''status'' \<mapsto> Val 2, ''requirements_text'' \<mapsto> Val 5])
       = Inr (scenario Project [''status'' \<mapsto> Val 2, ''requirements_text'' \<mapsto> Val 5])
   \<and> update_transaction 200 (scenario Project [''status'' \<mapsto> Val 2, ''requirements_text'' \<mapsto> Val 5])
       = Inr (Val 200)"
proof -
  let ?t = "scenario Project [''status'' \<mapsto> Val 2, ''requirements_text'' \<mapsto> Val 5]"
  have k: "REAL_UPDATE_COLS (tablename_of (cls ?t)) =
      Some [''status'', ''name'', ''description'', ''client_pm_id'', ''our_pm_id'', ''is_active'']"
    by (simp add: scenario_def REAL_UPDATE_COLS_def)
  have m: "''status'' \<in> set [''status'', ''name'', ''description'', ''client_pm_id'',
      ''our_pm_id'', ''is_active'']"
    by simp
  have h: "has_changes ?t ''status''" "has_changes ?t ''requirements_text''"
    by (simp_all add: scenario_def has_changes_def)
  have f: "flushed_updated_at 200 ?t = Val 200"
    by (simp add: scenario_def flushed_updated_at_def)
  show ?thesis
    using real_change_leaves_updated_at [OF k m h(1), of 200] h f by simp
qed

text \<open>
  C6. The hook is idempotent: on every instance it returns a state on which a second
  invocation changes nothing, so the pending \<^verbatim>\<open>updated_at\<close> and the committed one are the
  same after two invocations as after one.
\<close>

theorem skip_updated_at_idempotent:
  "\<exists>t1 t2. skip_updated_at t = Inr t1 \<and> skip_updated_at t1 = Inr t2 \<and> t2 = t1
     \<and> assigned t2 ''updated_at'' = assigned t1 ''updated_at''
     \<and> flushed_updated_at now t2 = flushed_updated_at now t1"
  using skip_updated_at_total [of t] skip_updated_at_again by blast

text \<open>
  A User row in memory whose \<^verbatim>\<open>completed_task_count\<close> (not configured) changed and to
  whose \<^verbatim>\<open>updated_at\<close> the caller assigned 150: both invocations leave 150 pending. An
  expired Project whose \<^verbatim>\<open>requirements_text\<close> (not configured) was assigned: both
  invocations leave \<^verbatim>\<open>NO_VALUE\<close> pending.
\<close>

theorem skip_updated_at_idempotent_witness:
  "(\<exists>t1. skip_updated_at
            (scenario User [''completed_task_count'' \<mapsto> Val 8, ''updated_at'' \<mapsto> Val 150])
          = Inr t1
        \<and> skip_updated_at t1 = Inr t1
        \<and> assigned t1 ''updated_at'' = Some (Val 150))
   \<and> (\<exists>t1. skip_updated_at (expired Project [''requirements_text'' \<mapsto> Val 5]) = Inr t1
        \<and> skip_updated_at t1 = Inr t1
        \<and> assigned t1 ''updated_at'' = Some NO_VALUE)"
proof
  let ?t = "scenario User [''completed_task_count'' \<mapsto> Val 8, ''updated_at'' \<mapsto> Val 150]"
  have k: "REAL_UPDATE_COLS (tablename_of (cls ?t)) =
      Some [''email'', ''org_id'', ''availability'', ''language_expertise'', ''skill_score'',
            ''skill_level'', ''qa_approval_rate'', ''is_active'']"
    by (simp add: scenario_def REAL_UPDATE_COLS_def)
  have s: "skip_updated_at ?t = Inr (setattr ?t ''updated_at'' (loaded_value ?t ''updated_at''))"
    by (simp add: skip_updated_at_tracked [OF k]) (simp add: has_changes_def scenario_def)
  have a: "assigned (setattr ?t ''updated_at'' (loaded_value ?t ''updated_at'')) ''updated_at''
      = Some (Val 150)"
    by (simp add: setattr_def loaded_value_def scenario_def)
  show "\<exists>t1. skip_updated_at ?t = Inr t1 \<and> skip_updated_at t1 = Inr t1
          \<and> assigned t1 ''updated_at'' = Some (Val 150)"
    using skip_updated_at_idempotent [of ?t 200] s a by auto
next
  let ?t = "expired Project [''requirements_text'' \<mapsto> Val 5]"
  have k: "REAL_UPDATE_COLS (tablename_of (cls ?t)) =
      Some [''status'', ''name'', ''description'', ''client_pm_id'', ''our_pm_id'', ''is_active'']"
    by (simp add: expired_def REAL_UPDATE_COLS_def)
  have s: "skip_updated_at ?t = Inr (setattr ?t ''updated_at'' (loaded_value ?t ''updated_at''))"
    by (simp add: skip_updated_at_tracked [OF k]) (simp add: has_changes_def expired_def)
  have a: "assigned (setattr ?t ''updated_at'' (loaded_value ?t ''updated_at'')) ''updated_at''
      = Some NO_VALUE"
    by (simp add: setattr_def loaded_value_def expired_def)
  show "\<exists>t1. skip_updated_at ?t = Inr t1 \<and> skip_updated_at t1 = Inr t1
          \<and> assigned t1 ''updated_at'' = Some NO_VALUE"
    using skip_updated_at_idempotent [of ?t 200] s a by auto
qed

text \<open>
  C7. Whenever the hook returns, the dict bound to \<^verbatim>\<open>REAL_UPDATE_COLS\<close> is the one it was
  called with, and the instance differs from the one it received at most in the pending
  value of \<^verbatim>\<open>updated_at\<close>: the class, the values from the database and every other
  pending value are the same. The only assignment the hook can make is that of the
  \<^verbatim>\<open>loaded_value\<close> of \<^verbatim>\<open>updated_at\<close> to \<^verbatim>\<open>updated_at\<close>.
\<close>

theorem skip_updated_at_frame:
  assumes "skip_updated_at_st cfg t = Inr (cfg1, t1)"
  shows "cfg1 = cfg
         \<and> cls t1 = cls t \<and> loaded t1 = loaded t
         \<and> (\<forall>c. c \<noteq> ''updated_at'' \<longrightarrow> assigned t1 c = assigned t c)
         \<and> (t1 = t \<or> t1 = setattr t ''updated_at'' (loaded_value t ''updated_at''))
         \<and> (cfg = REAL_UPDATE_COLS \<longrightarrow> skip_updated_at t = Inr t1)"
  using assms
  by (auto simp: skip_updated_at_def skip_updated_at_st_def Let_def setattr_def
      split: if_splits sum.splits bool.splits)

text \<open>
  An AnnotationJob row in memory whose \<^verbatim>\<open>project_id\<close> (not configured) changed and to
  whose \<^verbatim>\<open>updated_at\<close> the caller assigned 150: the hook re-assigns 150 and leaves
  \<^verbatim>\<open>project_id\<close> and the configuration alone.
\<close>

theorem skip_updated_at_frame_witness:
  "\<exists>cfg1 t1. skip_updated_at_st REAL_UPDATE_COLS
        (scenario AnnotationJob [''project_id'' \<mapsto> Val 4, ''updated_at'' \<mapsto> Val 150])
       = Inr (cfg1, t1)
     \<and> cfg1 = REAL_UPDATE_COLS
     \<and> cls t1 = AnnotationJob
     \<and> loaded t1 ''updated_at'' = Some 100
     \<and> assigned t1 ''project_id'' = Some (Val 4)
     \<and> assigned t1 ''updated_at'' = Some (Val 150)"
proof -
  let ?t = "scenario AnnotationJob [''project_id'' \<mapsto> Val 4, ''updated_at'' \<mapsto> Val 150]"
  let ?cs = "[''status'', ''review_status'', ''priority'', ''language'', ''due_date'',
              ''is_active'']"
  have k: "REAL_UPDATE_COLS (tablename_of (cls ?t)) = Some ?cs"
    by (simp add: scenario_def REAL_UPDATE_COLS_def)
  have ne: "?cs \<noteq> []" by simp
  have any: "any_has_changes ?t ?cs = Inr False"
    by (simp add: has_attr_def mapped_attrs_def columns_of_def has_changes_def scenario_def)
  have upd: "has_attr (cls ?t) ''updated_at''"
    by (simp add: has_attr_def mapped_attrs_def columns_of_def TimestampMixin_columns_def
        scenario_def)
  have s: "skip_updated_at_st REAL_UPDATE_COLS ?t =
      Inr (REAL_UPDATE_COLS, setattr ?t ''updated_at'' (loaded_value ?t ''updated_at''))"
    using skip_updated_at_st_scan [where cfg = REAL_UPDATE_COLS, OF k ne any upd] by simp
  have v: "loaded_value ?t ''updated_at'' = Val 150"
    by (simp add: loaded_value_def scenario_def)
  show ?thesis
    using skip_updated_at_frame [OF s] s v by (simp add: scenario_def setattr_def)
qed

text \<open>
  C8. The hook never raises. Every column name of a configured set is a column of the class
  with that table name, hence a mapped attribute, and so is \<^verbatim>\<open>updated_at\<close>; the scan of
  the configured columns therefore returns a truth value on every instance of a tracked
  class, and the hook returns an instance on every input.
\<close>

theorem hook_never_raises:
  "(\<forall>m cs. REAL_UPDATE_COLS (tablename_of m) = Some cs \<longrightarrow>
       set cs \<subseteq> set (columns_of m) \<and> (\<forall>c\<in>set cs. has_attr m c)
       \<and> has_attr m ''updated_at'')
   \<and> (\<forall>cs. REAL_UPDATE_COLS (tablename_of (cls t)) = Some cs \<longrightarrow>
         any_has_changes t cs = Inr (\<exists>c\<in>set cs. has_changes t c))
   \<and> (\<exists>t1. skip_updated_at t = Inr t1)"
proof (intro conjI allI impI)
  fix m cs assume k: "REAL_UPDATE_COLS (tablename_of m) = Some cs"
  show "set cs \<subseteq> set (columns_of m)"
    using cols_are_columns [OF k] by (auto simp: columns_of_def)
  show "\<forall>c\<in>set cs. has_attr m c"
    using cols_mapped [OF k] by blast
  show "has_attr m ''updated_at''"
    by (rule updated_at_mapped) (rule config_cases [OF k])
next
  fix cs assume k: "REAL_UPDATE_COLS (tablename_of (cls t)) = Some cs"
  show "any_has_changes t cs = Inr (\<exists>c\<in>set cs. has_changes t c)"
    by (rule any_has_changes_mapped) (rule cols_mapped [OF k])
next
  show "\<exists>t1. skip_updated_at t = Inr t1" by (rule skip_updated_at_total)
qed

theorem hook_never_raises_witness:
  "set [''status'', ''role'', ''user_id''] \<subseteq> set (columns_of Assignment)
   \<and> has_attr Assignment ''updated_at''
   \<and> any_has_changes (scenario Assignment [''role'' \<mapsto> Val 2]) [''status'', ''role'', ''user_id'']
       = Inr True"
proof -
  let ?t = "scenario Assignment [''role'' \<mapsto> Val 2]"
  have k: "REAL_UPDATE_COLS (tablename_of Assignment) = Some [''status'', ''role'', ''user_id'']"
    by (simp add: REAL_UPDATE_COLS_def)
  have k': "REAL_UPDATE_COLS (tablename_of (cls ?t)) = Some [''status'', ''role'', ''user_id'']"
    by (simp add: REAL_UPDATE_COLS_def scenario_def)
  have h: "has_changes ?t ''role''"
    by (simp add: has_changes_def scenario_def)
  from hook_never_raises [of ?t] k k'
  have "set [''status'', ''role'', ''user_id''] \<subseteq> set (columns_of Assignment)"
    and "has_attr Assignment ''updated_at''"
    and "any_has_changes ?t [''status'', ''role'', ''user_id'']
           = Inr (\<exists>c\<in>set [''status'', ''role'', ''user_id'']. has_changes ?t c)"
    by blast+
  then show ?thesis using h by simp
qed

text \<open>
  C9. Every listener of the module is registered for \<^verbatim>\<open>before_update\<close>: for any other
  lifecycle event, \<^verbatim>\<open>before_insert\<close> among them, the hook is not invoked and the instance
  is left as it is. On \<^verbatim>\<open>before_update\<close> the dispatch returns an instance, so the update
  transaction commits.
\<close>

theorem hook_only_on_update:
  "(\<forall>(m, ev) \<in> set listeners. ev = ''before_update'')
   \<and> (ev \<noteq> ''before_update'' \<longrightarrow> dispatch ev t = Inr t)
   \<and> dispatch ''before_insert'' t = Inr t
   \<and> (\<exists>t1. dispatch ''before_update'' t = Inr t1)
   \<and> (\<exists>ts. update_transaction now t = Inr ts)"
proof -
  have 1: "\<forall>(m, ev) \<in> set listeners. ev = ''before_update''"
    by (auto simp: listeners_def)
  have 2: "ev \<noteq> ''before_update'' \<longrightarrow> dispatch ev t = Inr t"
    by (simp add: dispatch_other_event)
  have 3: "dispatch ''before_insert'' t = Inr t"
    by (simp add: dispatch_other_event)
  have 4: "\<exists>t1. dispatch ''before_update'' t = Inr t1"
    using skip_updated_at_total [of t] by (simp add: dispatch_before_update)
  then have 5: "\<exists>ts. update_transaction now t = Inr ts"
    by (auto simp: update_transaction_def)
  show ?thesis using 1 2 3 4 5 by blast
qed

theorem hook_only_on_update_witness:
  "dispatch ''before_insert'' (scenario File [''status'' \<mapsto> Val 1])
     = Inr (scenario File [''status'' \<mapsto> Val 1])
   \<and> dispatch ''before_delete'' (scenario File [''status'' \<mapsto> Val 1])
     = Inr (scenario File [''status'' \<mapsto> Val 1])
   \<and> (\<exists>ts. update_transaction 200 (scenario File [''status'' \<mapsto> Val 1]) = Inr ts)"
proof -
  have "''before_delete'' \<noteq> ''before_update''" by simp
  then show ?thesis
    using hook_only_on_update [of "''before_delete''" "scenario File [''status'' \<mapsto> Val 1]" 200]
    by blast
qed

text \<open>
  C10. The hook is registered for exactly nine classes: Project, File, FileVersion, User,
  AnnotationJob, Assignment, Review, ExportLog and Organization. The table name of each is a
  key of \<open>REAL_UPDATE_COLS\<close> with a non-empty column list, and the registered classes are
  exactly those whose table name is a key. An instance of any other class, such as
  EventLog, Role or Permission, is never touched by the dispatch.
\<close>

theorem registration_matches_configuration:
  "length listeners = 9 \<and> distinct (map fst listeners)
   \<and> set (map fst listeners) =
       {Project, File, FileVersion, User, AnnotationJob, Assignment, Review, ExportLog,
        Organization}
   \<and> (\<forall>m. (m, ''before_update'') \<in> set listeners \<longrightarrow>
         (\<exists>cs. REAL_UPDATE_COLS (tablename_of m) = Some cs \<and> cs \<noteq> []))
   \<and> (\<forall>m. (m, ''before_update'') \<in> set listeners \<longleftrightarrow>
            REAL_UPDATE_COLS (tablename_of m) \<noteq> None)
   \<and> (cls t \<notin> set (map fst listeners) \<longrightarrow> dispatch ev t = Inr t)
   \<and> EventLog \<notin> set (map fst listeners) \<and> Role \<notin> set (map fst listeners)
   \<and> Permission \<notin> set (map fst listeners)"
proof -
  have reg: "(m, ''before_update'') \<in> set listeners \<longleftrightarrow> m \<in> set registered_models" for m
    by (auto simp: listeners_def)
  have fst: "map fst listeners = registered_models"
    by (simp add: listeners_def comp_def)
  have 1: "length listeners = 9" by (simp add: listeners_def registered_models_def)
  have 2: "distinct (map fst listeners)" by (simp add: fst registered_models_def)
  have 3: "set (map fst listeners) =
       {Project, File, FileVersion, User, AnnotationJob, Assignment, Review, ExportLog,
        Organization}"
    by (simp add: fst registered_models_def)
  have 4: "\<forall>m. (m, ''before_update'') \<in> set listeners \<longrightarrow>
         (\<exists>cs. REAL_UPDATE_COLS (tablename_of m) = Some cs \<and> cs \<noteq> [])"
    using registered_config cols_nonempty by (fastforce simp: reg)
  have 5: "\<forall>m. (m, ''before_update'') \<in> set listeners \<longleftrightarrow>
            REAL_UPDATE_COLS (tablename_of m) \<noteq> None"
    using registered_config config_cases by (fastforce simp: reg)
  have 6: "cls t \<notin> set (map fst listeners) \<longrightarrow> dispatch ev t = Inr t"
    by (auto simp: dispatch_def fst listeners_def)
  have 7: "EventLog \<notin> set (map fst listeners)" "Role \<notin> set (map fst listeners)"
    "Permission \<notin> set (map fst listeners)"
    by (simp_all add: fst registered_models_def)
  show ?thesis using 1 2 3 4 5 6 7 by blast
qed

theorem registration_matches_configuration_witness:
  "(\<exists>cs. REAL_UPDATE_COLS (tablename_of ExportLog) = Some cs \<and> cs \<noteq> [])
   \<and> dispatch ''before_update'' (scenario Role [''name'' \<mapsto> Val 1])
       = Inr (scenario Role [''name'' \<mapsto> Val 1])"
proof -
  have a: "(ExportLog, ''before_update'') \<in> set listeners"
    by (simp add: listeners_def registered_models_def)
  have b: "cls (scenario Role [''name'' \<mapsto> Val 1]) \<notin> set (map fst listeners)"
    by (simp add: listeners_def registered_models_def scenario_def comp_def)
  show ?thesis
    using registration_matches_configuration
      [of "scenario Role [''name'' \<mapsto> Val 1]" "''before_update''"] a b
    by blast
qed

end
